theory Spec2Isabelle
  imports Main "HOL-Library.AList"
begin

section \<open>The element tree as a store\<close>

text \<open>
  The worker keeps the parsed page as a tree of element objects which the comment
  constructor mutates in place (classes and attributes are added). An element object is a
  reference into a store; the store maps every reference to the element's present state.
  Only what \<^verbatim>\<open>CommentSkeleton.js\<close> reads or writes is kept: the tag name, the class
  list and the attributes.
\<close>

record element =
  tagName :: string
  classList :: "string list"
  attribs :: "(string \<times> string) list"

type_synonym elemref = nat
type_synonym document = "elemref \<Rightarrow> element"

definition getAttribute :: "element \<Rightarrow> string \<Rightarrow> string option" where
  "getAttribute el name = map_of (attribs el) name"

definition setAttribute :: "string \<Rightarrow> string \<Rightarrow> element \<Rightarrow> element" where
  "setAttribute name v el = el\<lparr>attribs := AList.update name v (attribs el)\<rparr>"

text \<open>\<^verbatim>\<open>classList.add(name)\<close>: a class already present is not added again.\<close>

definition classList_add :: "string \<Rightarrow> element \<Rightarrow> element" where
  "classList_add name el =
     (if name \<in> set (classList el) then el else el\<lparr>classList := classList el @ [name]\<rparr>)"

text \<open>JavaScript truthiness of a possibly missing string: missing and empty are falsy.\<close>

definition truthy :: "string option \<Rightarrow> bool" where
  "truthy v = (case v of None \<Rightarrow> False | Some s \<Rightarrow> s \<noteq> [])"

text \<open>\<^verbatim>\<open>String(n)\<close> for a non-negative integer: its decimal digits.\<close>

fun string_of_nat :: "nat \<Rightarrow> string" where
  "string_of_nat n =
     (if n < 10 then [char_of (48 + n)]
      else string_of_nat (n div 10) @ [char_of (48 + n mod 10)])"

declare string_of_nat.simps [simp del]

section \<open>Exceptions and effects\<close>

text \<open>
  \<^verbatim>\<open>CdError\<close> is the script's own exception; \<^verbatim>\<open>TypeError\<close> is what the runtime throws
  on a property read of \<^verbatim>\<open>undefined\<close>; \<^verbatim>\<open>OtherError\<close> stands for any exception thrown
  by the modules that are taken as parameters below.

  An operation on the tree takes the store and returns the store it leaves behind together
  with either the exception it threw or its result: what was written to the tree before a
  throw stays written.
\<close>

datatype error = CdError | TypeError | OtherError string

type_synonym 'a dom_op = "document \<Rightarrow> (error + 'a) \<times> document"

definition ret :: "'a \<Rightarrow> 'a dom_op" where
  "ret x = (\<lambda>d. (Inr x, d))"

definition throw :: "error \<Rightarrow> 'a dom_op" where
  "throw e = (\<lambda>d. (Inl e, d))"

definition bind :: "'a dom_op \<Rightarrow> ('a \<Rightarrow> 'b dom_op) \<Rightarrow> 'b dom_op" where
  "bind m f = (\<lambda>d. case m d of (Inl e, d') \<Rightarrow> (Inl e, d') | (Inr x, d') \<Rightarrow> f x d')"

section \<open>Parts, signatures and the parser\<close>

text \<open>
  A part as the constructor uses it: the element it stands for and whether the parser
  marked it as a heading.
\<close>

record part =
  node :: elemref
  isHeading :: bool

record signature =
  sig_element :: elemref
  sig_date :: "int option"
  sig_timestampText :: string
  sig_authorName :: string
  sig_anchor :: "string option"
  sig_isUnsigned :: bool

datatype side = Top | Bottom

text \<open>
  The comment object built by the constructor of \<^verbatim>\<open>CommentSkeleton\<close>. The field
  \<^verbatim>\<open>id\<close> is \<open>comment_id\<close> here. \<open>openingSectionOfLevel\<close> is \<open>None\<close> both where the
  source leaves the property unset and where it stores \<^verbatim>\<open>null\<close>.
\<close>

record commentSkeleton =
  comment_id :: nat
  date :: "int option"
  timestamp :: string
  authorName :: string
  own :: bool
  anchor :: "string option"
  isUnsigned :: bool
  parts :: "part list"
  elements :: "elemref list"
  highlightables :: "elemref list"
  level :: nat
  followsHeading :: bool
  isOpeningSection :: bool
  openingSectionOfLevel :: "nat option"

text \<open>
  A section as the worker uses it: \<open>section_id\<close> may be undefined, \<open>sec_comments\<close> holds
  references to comment objects. Every comment object that stays alive is pushed to
  \<^verbatim>\<open>cd.comments\<close> exactly once, so a reference to a comment object is its position in
  that list.
\<close>

record sectionSkeleton =
  section_id :: "nat option"
  headline :: string
  sec_anchor :: "string option"
  sec_comments :: "nat list"

text \<open>
  The class \<^verbatim>\<open>Parser\<close> is not among the sources at hand; its methods are parameters.
  Each may read and change the tree and may throw. \<open>'t\<close> is what \<^verbatim>\<open>findTimestamps\<close>
  hands to \<^verbatim>\<open>findSignatures\<close>, \<open>'h\<close> is a heading found by \<^verbatim>\<open>findHeadings\<close>.
  \<open>findSignatures\<close> reads and extends the registry of comment anchors (module
  \<^verbatim>\<open>timestamp\<close>); \<open>createSection\<close> reads \<^verbatim>\<open>cd.comments\<close> and
  \<^verbatim>\<open>cd.sections\<close>. An entry of the result of \<open>getLevelsUpTree\<close> may be falsy
  (\<open>None\<close>), since \<^verbatim>\<open>setLevels\<close> tests each entry before use.
\<close>

record ('t, 'h) parser =
  findTimestamps :: "'t dom_op"
  findSignatures :: "'t \<Rightarrow> string list \<Rightarrow> (signature list \<times> string list) dom_op"
  collectParts :: "elemref \<Rightarrow> part list dom_op"
  removeNestedParts :: "part list \<Rightarrow> part list dom_op"
  encloseInlineParts :: "part list \<Rightarrow> elemref \<Rightarrow> part list dom_op"
  filterParts :: "part list \<Rightarrow> part list dom_op"
  replaceListsWithItems :: "part list \<Rightarrow> elemref \<Rightarrow> part list dom_op"
  getLevelsUpTree :: "elemref \<Rightarrow> side \<Rightarrow> elemref option list dom_op"
  findHeadings :: "'h list dom_op"
  createSection ::
    "'h \<Rightarrow> commentSkeleton list \<Rightarrow> sectionSkeleton list \<Rightarrow> sectionSkeleton dom_op"

text \<open>
  The object \<^verbatim>\<open>cd.g\<close> of the worker: the two fields that \<^verbatim>\<open>CommentSkeleton.js\<close>
  reads, the source text of the timestamp parser, and all other keys, which only the
  parameter modules read.
\<close>

record globals =
  CURRENT_USER_NAME :: string
  UNHIGHLIGHTABLE_ELEMENTS_CLASSES :: "string list"
  TIMESTAMP_PARSER :: string
  g_others :: "string \<rightharpoonup> string"

section \<open>The constructor of CommentSkeleton\<close>

text \<open>\<^verbatim>\<open>/^H[1-6]$/.test(tagName)\<close>\<close>

definition isHeadingTag :: "string \<Rightarrow> bool" where
  "isHeadingTag s =
     (case s of [h, n] \<Rightarrow> h = CHR ''H'' \<and> n \<in> set ''123456'' | _ \<Rightarrow> False)"

definition startsWith :: "string \<Rightarrow> string \<Rightarrow> bool" where
  "startsWith p s = (take (length p) s = p)"

text \<open>
  \<^verbatim>\<open>/float: *(?:left|right)/\<close> matched at the start of \<open>s\<close>, and searched anywhere in
  \<open>s\<close>. After the run of spaces the next character must be \<open>l\<close> or \<open>r\<close>, so taking the
  whole run is the only way to match.
\<close>

definition floatAt :: "string \<Rightarrow> bool" where
  "floatAt s =
     (startsWith ''float:'' s \<and>
      (let r = dropWhile (\<lambda>c. c = CHR '' '') (drop 6 s)
       in startsWith ''left'' r \<or> startsWith ''right'' r))"

fun floatIn :: "string \<Rightarrow> bool" where
  "floatIn [] = floatAt []"
| "floatIn (c # cs) = (floatAt (c # cs) \<or> floatIn cs)"

text \<open>
  The test on \<^verbatim>\<open>el.getAttribute('style')\<close>: a missing attribute is converted to the
  text \<^verbatim>\<open>null\<close> or \<^verbatim>\<open>undefined\<close>, in which the pattern does not occur.
\<close>

definition hasFloatStyle :: "element \<Rightarrow> bool" where
  "hasFloatStyle el = (case getAttribute el ''style'' of None \<Rightarrow> False | Some s \<Rightarrow> floatIn s)"

definition isHighlightable :: "globals \<Rightarrow> element \<Rightarrow> bool" where
  "isHighlightable g el =
     (\<not> isHeadingTag (tagName el) \<and>
      \<not> list_ex (\<lambda>name. name \<in> set (classList el)) (UNHIGHLIGHTABLE_ELEMENTS_CLASSES g) \<and>
      \<not> hasFloatStyle el)"

text \<open>Lines 31 to 46: the parts of the comment, as the parser resolves them.\<close>

definition resolveParts :: "('t, 'h) parser \<Rightarrow> signature \<Rightarrow> part list dom_op" where
  "resolveParts P sig =
     bind (collectParts P (sig_element sig)) (\<lambda>ps1.
     bind (removeNestedParts P ps1) (\<lambda>ps2.
     bind (encloseInlineParts P ps2 (sig_element sig)) (\<lambda>ps3.
     bind (filterParts P ps3) (\<lambda>ps4.
     replaceListsWithItems P (rev ps4) (sig_element sig)))))"

text \<open>
  \<^verbatim>\<open>addAttributes\<close>: reading \<^verbatim>\<open>this.elements[0]\<close> of an empty list gives
  \<^verbatim>\<open>undefined\<close>, and the property read on it throws.
\<close>

definition tagPart :: "nat \<Rightarrow> document \<Rightarrow> elemref \<Rightarrow> document" where
  "tagPart n d el =
     d(el := setAttribute ''data-comment-id'' (string_of_nat n)
               (classList_add ''cd-commentPart'' (d el)))"

definition addAttributes :: "nat \<Rightarrow> string option \<Rightarrow> elemref list \<Rightarrow> unit dom_op" where
  "addAttributes n anch els =
     (\<lambda>d. case els of
        [] \<Rightarrow> (Inl TypeError, d)
      | e0 # _ \<Rightarrow>
          let d1 = (if truthy anch \<and> \<not> truthy (getAttribute (d e0) ''id'')
                    then d(e0 := setAttribute ''id'' (the anch) (d e0)) else d);
              d2 = d1(e0 := classList_add ''cd-commentPart-first'' (d1 e0));
              d3 = d2(last els := classList_add ''cd-commentPart-last'' (d2 (last els)))
          in (Inr (), foldl (tagPart n) d3 els))"

text \<open>\<^verbatim>\<open>setLevels\<close>: the loop body for one index, then the method. It returns the level.\<close>

definition addLevelClasses :: "nat \<Rightarrow> element \<Rightarrow> element" where
  "addLevelClasses i el =
     classList_add (''cd-commentLevel-'' @ string_of_nat (i + 1))
       (classList_add ''cd-commentLevel'' el)"

definition tagLevel ::
  "elemref option list \<Rightarrow> elemref option list \<Rightarrow> document \<Rightarrow> nat \<Rightarrow> document" where
  "tagLevel tops bots d i =
     (let d1 = (case tops ! i of Some t \<Rightarrow> d(t := addLevelClasses i (d t)) | None \<Rightarrow> d)
      in case bots ! i of
           Some b \<Rightarrow> if bots ! i \<noteq> tops ! i then d1(b := addLevelClasses i (d1 b)) else d1
         | None \<Rightarrow> d1)"

definition setLevels ::
  "('t, 'h) parser \<Rightarrow> elemref list \<Rightarrow> elemref list \<Rightarrow> nat dom_op" where
  "setLevels P els hls =
     (case hls of
        [] \<Rightarrow> throw TypeError
      | h0 # _ \<Rightarrow>
          bind (getLevelsUpTree P h0 Top) (\<lambda>tops.
          bind (if length els > 1 then getLevelsUpTree P (last hls) Bottom else ret tops)
            (\<lambda>bots.
              let lv = min (length tops) (length bots)
              in (\<lambda>d. (Inr lv, foldl (tagLevel tops bots) d [0..<lv])))))"

text \<open>
  Lines 139 to 166, after the level is known. \<open>ps\<close> and \<open>els\<close> are \<^verbatim>\<open>this.parts\<close> and
  \<^verbatim>\<open>this.elements\<close> on entry. Both branches of the first test store \<^verbatim>\<open>true\<close> in
  \<^verbatim>\<open>followsHeading\<close>. The second test reads \<^verbatim>\<open>this.parts[0]\<close> again, which is
  \<^verbatim>\<open>undefined\<close> when the only part has just been removed.
\<close>

definition headingLevel :: "string \<Rightarrow> nat option" where
  "headingLevel s = (if isHeadingTag s then Some (of_char (s ! 1) - 48) else None)"

definition finish ::
  "globals \<Rightarrow> nat \<Rightarrow> signature \<Rightarrow> part list \<Rightarrow> elemref list \<Rightarrow> elemref list \<Rightarrow> nat
     \<Rightarrow> commentSkeleton dom_op" where
  "finish g n sig ps els hls lv =
     (\<lambda>d. case ps of
        [] \<Rightarrow> (Inl TypeError, d)
      | p0 # _ \<Rightarrow>
          let fh = (if isHeading p0 then True else True);
              ps' = (if isHeading p0 \<and> lv \<noteq> 0 then tl ps else ps);
              els' = (if isHeading p0 \<and> lv \<noteq> 0 then tl els else els)
          in (case ps' of
               [] \<Rightarrow> (Inl TypeError, d)
             | q0 # _ \<Rightarrow>
                 (Inr \<lparr>comment_id = n,
                       date = sig_date sig,
                       timestamp = sig_timestampText sig,
                       authorName = sig_authorName sig,
                       own = (sig_authorName sig = CURRENT_USER_NAME g),
                       anchor = sig_anchor sig,
                       isUnsigned = sig_isUnsigned sig,
                       parts = ps',
                       elements = els',
                       highlightables = hls,
                       level = lv,
                       followsHeading = fh,
                       isOpeningSection = isHeading q0,
                       openingSectionOfLevel =
                         (if isHeading q0 then headingLevel (tagName (d (node q0))) else None)\<rparr>,
                  d)))"

text \<open>
  From line 105 on: the elements of the parts, the highlightable ones among them as the
  tree stands at that moment, the throw when there is none, then the attributes, the levels
  and the heading tests.
\<close>

definition assemble ::
  "('t, 'h) parser \<Rightarrow> globals \<Rightarrow> nat \<Rightarrow> signature \<Rightarrow> part list \<Rightarrow> commentSkeleton dom_op" where
  "assemble P g n sig ps =
     (\<lambda>d. let els = map node ps;
              hls = filter (\<lambda>el. isHighlightable g (d el)) els
          in if hls = [] then (Inl CdError, d)
             else bind (addAttributes n (sig_anchor sig) els) (\<lambda>_.
                  bind (setLevels P els hls) (\<lambda>lv.
                  finish g n sig ps els hls lv)) d)"

text \<open>
  \<^verbatim>\<open>new CommentSkeleton(parser, signature)\<close>; \<open>cd_comments\<close> is \<^verbatim>\<open>cd.comments\<close> at the
  time of the call, whose length becomes the id.
\<close>

definition CommentSkeleton ::
  "('t, 'h) parser \<Rightarrow> globals \<Rightarrow> commentSkeleton list \<Rightarrow> signature \<Rightarrow> commentSkeleton dom_op"
  where
  "CommentSkeleton P g cd_comments sig =
     bind (resolveParts P sig) (assemble P g (length cd_comments) sig)"

text \<open>
  \<^verbatim>\<open>getSection\<close>: the sections in reverse order, the first one whose comment list
  includes this comment, \<^verbatim>\<open>null\<close> when \<^verbatim>\<open>find\<close> finds none. \<open>this\<close> is the
  reference of the comment object.
\<close>

definition getSection :: "sectionSkeleton list \<Rightarrow> nat \<Rightarrow> sectionSkeleton option" where
  "getSection cd_sections this = find (\<lambda>s. this \<in> set (sec_comments s)) (rev cd_sections)"

text \<open>
  The getter \<^verbatim>\<open>section\<close>: the private field \<^verbatim>\<open>#cachedSection\<close> is \<open>None\<close> while
  undefined; the first read stores what \<^verbatim>\<open>getSection\<close> returns, later reads return the
  stored value.
\<close>

definition section_getter ::
  "sectionSkeleton option option \<Rightarrow> sectionSkeleton list \<Rightarrow> nat
     \<Rightarrow> sectionSkeleton option \<times> sectionSkeleton option option" where
  "section_getter cachedSection cd_sections this =
     (case cachedSection of
        None \<Rightarrow> (let r = getSection cd_sections this in (r, Some r))
      | Some r \<Rightarrow> (r, cachedSection))"

section \<open>The worker\<close>

record config =
  customFloatingElementsSelectors :: "string list"
  closedDiscussionsClasses :: "string list"
  elementsToExcludeClasses :: "string list"
  signatureScanLimit :: nat
  foreignElementsInHeadlinesClasses :: "string list"
  customForeignComponentChecker :: "string option"
  checkForCustomForeignComponents :: "string option"

text \<open>
  The object \<^verbatim>\<open>message.g\<close> of a parse request: a key it does not carry is \<open>None\<close>, or
  outside the domain of \<open>m_others\<close>. \<^verbatim>\<open>Object.assign(cd.g, message.g)\<close> writes the keys of
  the message into \<^verbatim>\<open>cd.g\<close> and leaves every other key of \<^verbatim>\<open>cd.g\<close> as it was.
\<close>

record globalsMessage =
  m_CURRENT_USER_NAME :: "string option"
  m_UNHIGHLIGHTABLE_ELEMENTS_CLASSES :: "string list option"
  m_TIMESTAMP_PARSER :: "string option"
  m_others :: "string \<rightharpoonup> string"

definition Object_assign :: "globals \<Rightarrow> globalsMessage \<Rightarrow> globals" where
  "Object_assign g m =
     \<lparr>CURRENT_USER_NAME =
        (case m_CURRENT_USER_NAME m of Some v \<Rightarrow> v | None \<Rightarrow> CURRENT_USER_NAME g),
      UNHIGHLIGHTABLE_ELEMENTS_CLASSES =
        (case m_UNHIGHLIGHTABLE_ELEMENTS_CLASSES m of
           Some v \<Rightarrow> v | None \<Rightarrow> UNHIGHLIGHTABLE_ELEMENTS_CLASSES g),
      TIMESTAMP_PARSER =
        (case m_TIMESTAMP_PARSER m of Some v \<Rightarrow> v | None \<Rightarrow> TIMESTAMP_PARSER g),
      g_others = g_others g ++ m_others m\<rparr>"

record parseRequest =
  req_text :: string
  req_g :: globalsMessage
  req_config :: config

datatype message = SetAlarm nat | RemoveAlarm | Parse parseRequest | OtherMessage string

text \<open>
  A message to the host is an object literal: its keys with their values, in the order
  written.
\<close>

datatype jsvalue = JString string | JComments "commentSkeleton list"

type_synonym jsobject = "(string \<times> jsvalue) list"

datatype logEntry = LoadedNotice | LoggedError error

text \<open>
  What the worker needs from outside the sources at hand:
  \<^item> \<open>prepare\<close>: lines 1415 to 1438 of the message handler, after the two assignments to
    \<^verbatim>\<open>cd.g\<close> and \<^verbatim>\<open>cd.config\<close>, that is the two calls of \<^verbatim>\<open>eval\<close>, \<^verbatim>\<open>parseDOM\<close>
    and the construction of the document and of \<^verbatim>\<open>cd.g.specialElements\<close>. It reads
    \<^verbatim>\<open>cd.g\<close>, \<^verbatim>\<open>cd.config\<close> and the text of the request, and gives the tree of the
    request or throws. What these lines write to \<^verbatim>\<open>cd.g\<close> they write anew for every
    request that gets as far: the tree (the field \<open>tree\<close> of the worker), the
    \<^verbatim>\<open>specialElements\<close> computed from it, and the evaluated \<^verbatim>\<open>TIMESTAMP_PARSER\<close>, which
    is identified with its source text (\<^verbatim>\<open>eval\<close> of a function is that function).
  \<^item> \<open>newParser\<close>: \<^verbatim>\<open>new Parser(context)\<close>. The parser reads \<^verbatim>\<open>cd.g\<close> and
    \<^verbatim>\<open>cd.config\<close>; it keeps no state of its own between two parses.
\<close>

record ('t, 'h) ext =
  prepare :: "globals \<Rightarrow> config \<Rightarrow> string \<Rightarrow> error + document"
  newParser :: "globals \<Rightarrow> config \<Rightarrow> ('t, 'h) parser"

text \<open>
  The state of the worker: the module variables \<^verbatim>\<open>firstRun\<close> and \<^verbatim>\<open>alarmTimeout\<close>,
  the timers of the runtime that are pending (handle and interval) with the next handle
  \<^verbatim>\<open>setTimeout\<close> will return, \<^verbatim>\<open>cd.comments\<close>, \<^verbatim>\<open>cd.sections\<close>, the registry of
  comment anchors that \<^verbatim>\<open>resetCommentAnchors\<close> empties, \<^verbatim>\<open>cd.g\<close>, \<^verbatim>\<open>cd.config\<close>,
  the tree under \<^verbatim>\<open>cd.g.rootElement\<close>, the messages posted to the host so far and the
  console. In a worker just loaded \<^verbatim>\<open>cd.g\<close> is the object of the module
  \<^verbatim>\<open>staticGlobals\<close>, here \<open>g0\<close>.
\<close>

record worker =
  firstRun :: bool
  alarmTimeout :: "nat option"
  timers :: "(nat \<times> nat) list"
  nextTimer :: nat
  cd_comments :: "commentSkeleton list"
  cd_sections :: "sectionSkeleton list"
  commentAnchors :: "string list"
  cd_g :: globals
  cd_config :: config
  tree :: document
  posted :: "jsobject list"
  console :: "logEntry list"

definition initialWorker :: "globals \<Rightarrow> config \<Rightarrow> document \<Rightarrow> worker" where
  "initialWorker g0 c0 d0 =
     \<lparr>firstRun = True, alarmTimeout = None, timers = [], nextTimer = 1,
      cd_comments = [], cd_sections = [], commentAnchors = [],
      cd_g = g0, cd_config = c0, tree = d0, posted = [], console = []\<rparr>"

text \<open>
  \<^verbatim>\<open>clearTimeout(handle)\<close> removes the pending timer with that handle, if there is one;
  an undefined handle removes nothing. \<^verbatim>\<open>setAlarm\<close> clears the timer whose handle is in
  \<^verbatim>\<open>alarmTimeout\<close> and stores the handle of a new one.
\<close>

definition clearTimeout :: "nat option \<Rightarrow> worker \<Rightarrow> worker" where
  "clearTimeout h w = w\<lparr>timers := filter (\<lambda>t. Some (fst t) \<noteq> h) (timers w)\<rparr>"

definition setAlarm :: "nat \<Rightarrow> worker \<Rightarrow> worker" where
  "setAlarm interval w =
     (let w1 = clearTimeout (alarmTimeout w) w
      in w1\<lparr>timers := timers w1 @ [(nextTimer w1, interval)],
             nextTimer := Suc (nextTimer w1),
             alarmTimeout := Some (nextTimer w1)\<rparr>)"

definition logError :: "error \<Rightarrow> logEntry list \<Rightarrow> logEntry list" where
  "logError e lg = (if e = CdError then lg else lg @ [LoggedError e])"

text \<open>
  \<^verbatim>\<open>signatures.forEach\<close> in \<^verbatim>\<open>parse\<close>: \<^verbatim>\<open>parser.createComment(signature)\<close> is
  \<^verbatim>\<open>new CommentSkeleton(parser, signature)\<close>, whose id is never undefined, so every
  comment that is constructed is pushed. The state is \<^verbatim>\<open>cd.comments\<close>, the console and
  the tree.
\<close>

fun createComments ::
  "('t, 'h) parser \<Rightarrow> globals \<Rightarrow> signature list
     \<Rightarrow> commentSkeleton list \<times> logEntry list \<times> document
     \<Rightarrow> commentSkeleton list \<times> logEntry list \<times> document" where
  "createComments P g [] st = st"
| "createComments P g (sig # sigs) (cs, lg, d) =
     (case CommentSkeleton P g cs sig d of
        (Inr c, d') \<Rightarrow> createComments P g sigs (cs @ [c], lg, d')
      | (Inl e, d') \<Rightarrow> createComments P g sigs (cs, logError e lg, d'))"

fun createSections ::
  "('t, 'h) parser \<Rightarrow> commentSkeleton list \<Rightarrow> 'h list
     \<Rightarrow> sectionSkeleton list \<times> logEntry list \<times> document
     \<Rightarrow> sectionSkeleton list \<times> logEntry list \<times> document" where
  "createSections P cs [] st = st"
| "createSections P cs (h # hs) (ss, lg, d) =
     (case createSection P h cs ss d of
        (Inr s, d') \<Rightarrow>
          createSections P cs hs (if section_id s \<noteq> None then ss @ [s] else ss, lg, d')
      | (Inl e, d') \<Rightarrow> createSections P cs hs (ss, logError e lg, d'))"

text \<open>
  \<^verbatim>\<open>cd.comments.forEach\<close> in \<^verbatim>\<open>parse\<close> (lines 1345 to 1370). The callback begins
  with the call \<^verbatim>\<open>comment.getChildren()\<close>. The class \<^verbatim>\<open>CommentSkeleton\<close> defines the
  constructor, \<^verbatim>\<open>addAttributes\<close>, \<^verbatim>\<open>setLevels\<close>, \<^verbatim>\<open>getSection\<close> and two getters, and no
  \<^verbatim>\<open>getChildren\<close>: the call is a call of \<^verbatim>\<open>undefined\<close> and throws a TypeError for the
  first comment. The rest of the callback never runs. With no comment the loop does
  nothing.
\<close>

definition identifyReplies :: "commentSkeleton list \<Rightarrow> error option" where
  "identifyReplies cs = (case cs of [] \<Rightarrow> None | c # _ \<Rightarrow> Some TypeError)"

definition parseResponse :: "commentSkeleton list \<Rightarrow> jsobject" where
  "parseResponse cs = [(''type'', JString ''parse''), (''comments'', JComments cs)]"


text \<open>
  Modelled from the spec: \<^verbatim>\<open>resetCommentAnchors\<close> of the module \<^verbatim>\<open>timestamp\<close>,
  which is not among the sources at hand. The registry of comment anchors is state of one
  parse and is reset at the start of each parse: the function leaves it empty.
\<close>

definition resetCommentAnchors :: "string list" where
  "resetCommentAnchors = []"

text \<open>
  \<^verbatim>\<open>parse()\<close>. It first empties \<^verbatim>\<open>cd.comments\<close> and \<^verbatim>\<open>cd.sections\<close> and resets the
  registry; the loops then read and extend what is in the state. The result says whether
  an exception left the function. The calls of \<^verbatim>\<open>cd.debug\<close> only measure time and are
  left out.
\<close>

definition parse :: "('t, 'h) ext \<Rightarrow> worker \<Rightarrow> error option \<times> worker" where
  "parse X w0 =
     (let w = w0\<lparr>cd_comments := [], cd_sections := [], commentAnchors := resetCommentAnchors\<rparr>;
          P = newParser X (cd_g w) (cd_config w)
      in case findTimestamps P (tree w) of
           (Inl e, d1) \<Rightarrow> (Some e, w\<lparr>tree := d1\<rparr>)
         | (Inr ts, d1) \<Rightarrow>
       (case findSignatures P ts (commentAnchors w) d1 of
           (Inl e, d2) \<Rightarrow> (Some e, w\<lparr>tree := d2\<rparr>)
         | (Inr (sigs, reg), d2) \<Rightarrow>
       (case createComments P (cd_g w) sigs (cd_comments w, console w, d2) of (cs, lg, d3) \<Rightarrow>
       (case findHeadings P d3 of
           (Inl e, d4) \<Rightarrow>
             (Some e, w\<lparr>cd_comments := cs, commentAnchors := reg, tree := d4, console := lg\<rparr>)
         | (Inr hs, d4) \<Rightarrow>
       (case createSections P cs hs (cd_sections w, lg, d4) of (ss, lg', d5) \<Rightarrow>
       (case identifyReplies cs of
           Some e \<Rightarrow>
             (Some e, w\<lparr>cd_comments := cs, cd_sections := ss, commentAnchors := reg,
                         tree := d5, console := lg'\<rparr>)
         | None \<Rightarrow>
             (None, w\<lparr>cd_comments := cs, cd_sections := ss, commentAnchors := reg,
                       tree := d5, console := lg',
                       posted := posted w @ [parseResponse cs]\<rparr>)))))))"

text \<open>
  \<^verbatim>\<open>onMessageFromWindow\<close>. The three tests of \<^verbatim>\<open>message.type\<close> run one after the
  other. For a parse request the keys of \<^verbatim>\<open>message.g\<close> are merged into \<^verbatim>\<open>cd.g\<close> and
  \<^verbatim>\<open>cd.config\<close> is replaced before anything can throw.
\<close>

definition onMessageFromWindow ::
  "('t, 'h) ext \<Rightarrow> worker \<Rightarrow> message \<Rightarrow> error option \<times> worker" where
  "onMessageFromWindow X w m =
     (let w1 = (if firstRun w then w\<lparr>console := console w @ [LoadedNotice], firstRun := False\<rparr>
                else w);
          w2 = (case m of SetAlarm interval \<Rightarrow> setAlarm interval w1 | _ \<Rightarrow> w1);
          w3 = (case m of RemoveAlarm \<Rightarrow> clearTimeout (alarmTimeout w2) w2 | _ \<Rightarrow> w2)
      in case m of
           Parse req \<Rightarrow>
             (let w4 = w3\<lparr>cd_g := Object_assign (cd_g w3) (req_g req),
                          cd_config := req_config req\<rparr>
              in case prepare X (cd_g w4) (cd_config w4) (req_text req) of
                   Inl e \<Rightarrow> (Some e, w4)
                 | Inr d \<Rightarrow> parse X (w4\<lparr>tree := d\<rparr>))
         | _ \<Rightarrow> (None, w3))"




section \<open>A small page\<close>

text \<open>
  A page to run the definitions on. Element 1 is a heading, 2 a floated box, 3 a list
  item inside the list 7, 4 a box with the class \<^verbatim>\<open>infobox\<close>, 9 a paragraph inside the
  list 7; all other elements are plain paragraphs. The parts the parser collects for a
  signature are listed last to first, as \<^verbatim>\<open>collectParts\<close> walks backwards. The parser
  \<open>demoParser\<close> finds three signatures, \<open>demoBoxParser\<close> finds one, whose only part is the
  box. The request \<open>demoRequest\<close> carries every key of \<^verbatim>\<open>message.g\<close> and makes the class
  \<^verbatim>\<open>infobox\<close> unhighlightable; \<open>demoPlainRequest\<close> carries every key and makes no class
  unhighlightable; \<open>demoBareRequest\<close> carries no key. \<open>demoStaticG\<close> stands for the object
  of \<^verbatim>\<open>staticGlobals\<close>. \<open>demoUsedWorker\<close> and \<open>demoPlainWorker\<close> are the worker after
  its first request, \<open>demoRequest\<close> for the one and \<open>demoPlainRequest\<close> for the other.
\<close>

definition plainElement :: element where
  "plainElement = \<lparr>tagName = ''P'', classList = [], attribs = []\<rparr>"

definition demoTree :: document where
  "demoTree =
     (\<lambda>_. plainElement)
       (1 := \<lparr>tagName = ''H2'', classList = [], attribs = []\<rparr>,
        2 := \<lparr>tagName = ''DIV'', classList = [], attribs = [(''style'', ''float: right'')]\<rparr>,
        3 := \<lparr>tagName = ''DD'', classList = [], attribs = []\<rparr>,
        4 := \<lparr>tagName = ''DIV'', classList = [''infobox''], attribs = []\<rparr>,
        7 := \<lparr>tagName = ''DL'', classList = [], attribs = []\<rparr>)"

definition demoG :: globals where
  "demoG = \<lparr>CURRENT_USER_NAME = ''Alice'', UNHIGHLIGHTABLE_ELEMENTS_CLASSES = [''infobox''],
            TIMESTAMP_PARSER = [], g_others = Map.empty\<rparr>"

definition demoStaticG :: globals where
  "demoStaticG = \<lparr>CURRENT_USER_NAME = [], UNHIGHLIGHTABLE_ELEMENTS_CLASSES = [],
                  TIMESTAMP_PARSER = [], g_others = Map.empty\<rparr>"

definition demoConfig :: config where
  "demoConfig =
     \<lparr>customFloatingElementsSelectors = [], closedDiscussionsClasses = [],
      elementsToExcludeClasses = [], signatureScanLimit = 100,
      foreignElementsInHeadlinesClasses = [], customForeignComponentChecker = None,
      checkForCustomForeignComponents = None\<rparr>"

definition demoSig :: "elemref \<Rightarrow> string \<Rightarrow> signature" where
  "demoSig el author =
     \<lparr>sig_element = el, sig_date = Some 1577872800000,
      sig_timestampText = ''10:00, 1 January 2020'', sig_authorName = author,
      sig_anchor = None, sig_isUnsigned = False\<rparr>"

definition demoParts :: "elemref \<Rightarrow> part list" where
  "demoParts el =
     (if el = 11 then [\<lparr>node = 2, isHeading = False\<rparr>]
      else if el = 12 then [\<lparr>node = 6, isHeading = False\<rparr>, \<lparr>node = 1, isHeading = True\<rparr>]
      else if el = 13 then [\<lparr>node = 3, isHeading = False\<rparr>, \<lparr>node = 1, isHeading = True\<rparr>]
      else if el = 14 then [\<lparr>node = 8, isHeading = False\<rparr>, \<lparr>node = 4, isHeading = False\<rparr>]
      else if el = 15 then [\<lparr>node = 9, isHeading = False\<rparr>, \<lparr>node = 4, isHeading = False\<rparr>]
      else if el = 16 then [\<lparr>node = 4, isHeading = False\<rparr>]
      else [\<lparr>node = 5, isHeading = False\<rparr>])"

definition demoSignatures :: "signature list" where
  "demoSignatures = [demoSig 10 ''Alice'', demoSig 11 ''Bob'', demoSig 14 ''Carol'']"

definition demoParser :: "(unit, nat) parser" where
  "demoParser =
     \<lparr>findTimestamps = ret (),
      findSignatures = (\<lambda>ts reg. ret (demoSignatures, reg)),
      collectParts = (\<lambda>el. ret (demoParts el)),
      removeNestedParts = ret,
      encloseInlineParts = (\<lambda>ps el. ret ps),
      filterParts = ret,
      replaceListsWithItems = (\<lambda>ps el. ret ps),
      getLevelsUpTree = (\<lambda>el sd. ret (if el = 3 \<or> el = 9 then [Some 7] else [])),
      findHeadings = ret [],
      createSection = (\<lambda>h cs ss. throw CdError)\<rparr>"

definition demoBoxParser :: "(unit, nat) parser" where
  "demoBoxParser = demoParser\<lparr>findSignatures := (\<lambda>ts reg. ret ([demoSig 16 ''Erin''], reg))\<rparr>"

definition demoX :: "(unit, nat) ext" where
  "demoX = \<lparr>prepare = (\<lambda>g c txt. Inr demoTree), newParser = (\<lambda>g c. demoParser)\<rparr>"

definition demoBoxX :: "(unit, nat) ext" where
  "demoBoxX = \<lparr>prepare = (\<lambda>g c txt. Inr demoTree), newParser = (\<lambda>g c. demoBoxParser)\<rparr>"

definition demoMessageG :: globalsMessage where
  "demoMessageG =
     \<lparr>m_CURRENT_USER_NAME = Some ''Alice'',
      m_UNHIGHLIGHTABLE_ELEMENTS_CLASSES = Some [''infobox''],
      m_TIMESTAMP_PARSER = Some [], m_others = Map.empty\<rparr>"

definition demoRequest :: parseRequest where
  "demoRequest = \<lparr>req_text = ''...'', req_g = demoMessageG, req_config = demoConfig\<rparr>"

definition demoPlainRequest :: parseRequest where
  "demoPlainRequest =
     \<lparr>req_text = ''...'',
      req_g = \<lparr>m_CURRENT_USER_NAME = Some ''Alice'', m_UNHIGHLIGHTABLE_ELEMENTS_CLASSES = Some [],
               m_TIMESTAMP_PARSER = Some [], m_others = Map.empty\<rparr>,
      req_config = demoConfig\<rparr>"

definition demoBareRequest :: parseRequest where
  "demoBareRequest =
     \<lparr>req_text = ''...'',
      req_g = \<lparr>m_CURRENT_USER_NAME = None, m_UNHIGHLIGHTABLE_ELEMENTS_CLASSES = None,
               m_TIMESTAMP_PARSER = None, m_others = Map.empty\<rparr>,
      req_config = demoConfig\<rparr>"

definition demoWorker :: worker where
  "demoWorker = initialWorker demoStaticG demoConfig demoTree"

definition demoUsedWorker :: worker where
  "demoUsedWorker = snd (onMessageFromWindow demoBoxX demoWorker (Parse demoRequest))"


definition demoSections :: "sectionSkeleton list" where
  "demoSections =
     [\<lparr>section_id = Some 0, headline = ''Topic'', sec_anchor = Some ''Topic'',
       sec_comments = [0, 1, 2]\<rparr>,
      \<lparr>section_id = Some 1, headline = ''Subtopic'', sec_anchor = Some ''Subtopic'',
       sec_comments = [1]\<rparr>,
      \<lparr>section_id = Some 2, headline = ''Other'', sec_anchor = Some ''Other'',
       sec_comments = [3]\<rparr>]"

definition demoComment ::
  "nat \<Rightarrow> string \<Rightarrow> part list \<Rightarrow> elemref list \<Rightarrow> nat \<Rightarrow> bool \<Rightarrow> nat option \<Rightarrow> commentSkeleton"
  where
  "demoComment n author ps hls lv opening olv =
     \<lparr>comment_id = n, date = Some 1577872800000, timestamp = ''10:00, 1 January 2020'',
      authorName = author, own = (author = ''Alice''), anchor = None, isUnsigned = False,
      parts = ps, elements = map node ps, highlightables = hls, level = lv,
      followsHeading = True, isOpeningSection = opening, openingSectionOfLevel = olv\<rparr>"


definition demoParsed :: "error option \<times> worker" where
  "demoParsed = onMessageFromWindow demoX demoWorker (Parse demoRequest)"


section \<open>Auxiliary facts\<close>


lemma bind_apply: "bind m f d = (case m d of (Inl e, d') \<Rightarrow> (Inl e, d') | (Inr x, d') \<Rightarrow> f x d')"
  by (simp add: bind_def)

lemma bind_ret [simp]: "bind (ret x) f = f x"
  by (simp add: bind_def ret_def)

lemma ret_apply [simp]: "ret x d = (Inr x, d)"
  by (simp add: ret_def)

lemma throw_apply [simp]: "throw e d = (Inl e, d)"
  by (simp add: throw_def)

lemma bind_Inr:
  "fst (bind m f d) = Inr y \<Longrightarrow> \<exists>x d'. m d = (Inr x, d') \<and> fst (f x d') = Inr y"
  by (auto simp: bind_apply split: prod.splits sum.splits)

lemma addAttributes_Inr:
  "fst (addAttributes n a els d) = Inr u \<Longrightarrow> \<exists>d'. addAttributes n a els d = (Inr (), d')"
  by (auto simp: addAttributes_def Let_def split: list.splits)

lemma finish_Inr:
  assumes "fst (finish g n sig ps els hls lv d) = Inr c"
  shows "ps \<noteq> [] \<and> followsHeading c \<and> level c = lv \<and> highlightables c = hls \<and>
           comment_id c = n \<and> parts c \<noteq> [] \<and>
           (if isHeading (hd ps) \<and> lv \<noteq> 0 then parts c = tl ps \<and> elements c = tl els
            else parts c = ps \<and> elements c = els) \<and>
           isOpeningSection c = isHeading (hd (parts c))"
  using assms
  by (auto simp: finish_def Let_def split: list.splits if_splits)

lemma setLevels_Inr:
  assumes "fst (setLevels P els hls d) = Inr lv"
  shows "\<exists>tops bots d1 d2. hls \<noteq> [] \<and> getLevelsUpTree P (hd hls) Top d = (Inr tops, d1) \<and>
           (if length els > 1 then getLevelsUpTree P (last hls) Bottom d1 = (Inr bots, d2)
            else bots = tops) \<and>
           lv = min (length tops) (length bots)"
  using assms
  by (auto simp: setLevels_def bind_apply Let_def split: list.splits prod.splits sum.splits if_splits)

lemma CommentSkeleton_Inr:
  assumes R: "resolveParts P sig d = (Inr ps, d1)"
    and C: "fst (CommentSkeleton P g cs sig d) = Inr c"
  shows "\<exists>d2 d3 lv.
           filter (\<lambda>el. isHighlightable g (d1 el)) (map node ps) \<noteq> [] \<and>
           addAttributes (length cs) (sig_anchor sig) (map node ps) d1 = (Inr (), d2) \<and>
           setLevels P (map node ps) (filter (\<lambda>el. isHighlightable g (d1 el)) (map node ps)) d2
             = (Inr lv, d3) \<and>
           fst (finish g (length cs) sig ps (map node ps)
                 (filter (\<lambda>el. isHighlightable g (d1 el)) (map node ps)) lv d3) = Inr c"
  using assms
  by (auto simp: CommentSkeleton_def assemble_def bind_apply Let_def
      split: prod.splits sum.splits if_splits)

lemma CommentSkeleton_no_highlightable:
  assumes "resolveParts P sig d = (Inr ps, d1)"
    and "filter (\<lambda>el. isHighlightable g (d1 el)) (map node ps) = []"
  shows "CommentSkeleton P g cs sig d = (Inl CdError, d1)"
  using assms by (simp add: CommentSkeleton_def assemble_def bind_apply Let_def)

lemma CommentSkeleton_id:
  assumes "fst (CommentSkeleton P g cs sig d) = Inr c"
  shows "comment_id c = length cs"
proof -
  from assms obtain ps d1 where R: "resolveParts P sig d = (Inr ps, d1)"
    unfolding CommentSkeleton_def by (blast dest: bind_Inr)
  from CommentSkeleton_Inr [OF R assms] finish_Inr show ?thesis by blast
qed


lemma createComments_ids:
  assumes "map comment_id cs = [0..<length cs]"
  shows "map comment_id (fst (createComments P g sigs (cs, lg, d)))
           = [0..<length (fst (createComments P g sigs (cs, lg, d)))]"
  using assms
proof (induction sigs arbitrary: cs lg d)
  case Nil
  then show ?case by simp
next
  case (Cons sig sigs)
  show ?case
  proof (cases "CommentSkeleton P g cs sig d")
    case (Pair r d')
    show ?thesis
    proof (cases r)
      case (Inl e)
      with Pair Cons show ?thesis by simp
    next
      case (Inr c)
      with Pair have "fst (CommentSkeleton P g cs sig d) = Inr c" by simp
      then have "comment_id c = length cs" by (rule CommentSkeleton_id)
      with Cons.prems have "map comment_id (cs @ [c]) = [0..<length (cs @ [c])]" by simp
      from Cons.IH [OF this] Pair Inr show ?thesis by simp
    qed
  qed
qed





lemmas model_simps =
  CommentSkeleton_def assemble_def resolveParts_def bind_apply addAttributes_def
  setLevels_def finish_def isHighlightable_def hasFloatStyle_def floatAt_def startsWith_def
  isHeadingTag_def getAttribute_def setAttribute_def classList_add_def truthy_def
  headingLevel_def tagPart_def tagLevel_def addLevelClasses_def logError_def Let_def

lemmas demo_simps =
  demoParser_def demoG_def demoTree_def demoSig_def demoParts_def plainElement_def
  demoSignatures_def demoX_def demoRequest_def demoWorker_def demoConfig_def
  demoBoxParser_def demoBoxX_def demoMessageG_def demoBareRequest_def demoPlainRequest_def demoStaticG_def

lemma logError_append: "logError e lg = lg @ logError e []"
  by (simp add: logError_def)

lemma createComments_console:
  "createComments P g sigs (cs, lg, d) =
     (fst (createComments P g sigs (cs, [], d)),
      lg @ fst (snd (createComments P g sigs (cs, [], d))),
      snd (snd (createComments P g sigs (cs, [], d))))"
proof (induction sigs arbitrary: cs lg d)
  case Nil
  show ?case by simp
next
  case (Cons sig sigs)
  show ?case
  proof (cases "CommentSkeleton P g cs sig d")
    case (Pair r d')
    show ?thesis
    proof (cases r)
      case (Inl e)
      have a: "createComments P g (sig # sigs) (cs, lg, d)
                 = createComments P g sigs (cs, logError e lg, d')"
        using Pair Inl by simp
      have b: "createComments P g (sig # sigs) (cs, [], d)
                 = createComments P g sigs (cs, logError e [], d')"
        using Pair Inl by simp
      have L: "createComments P g sigs (cs, logError e lg, d') =
                 (fst (createComments P g sigs (cs, [], d')),
                  logError e lg @ fst (snd (createComments P g sigs (cs, [], d'))),
                  snd (snd (createComments P g sigs (cs, [], d'))))"
        by (rule Cons.IH)
      have R: "createComments P g sigs (cs, logError e [], d') =
                 (fst (createComments P g sigs (cs, [], d')),
                  logError e [] @ fst (snd (createComments P g sigs (cs, [], d'))),
                  snd (snd (createComments P g sigs (cs, [], d'))))"
        by (rule Cons.IH)
      have "logError e lg = lg @ logError e []" by (rule logError_append)
      then show ?thesis
        unfolding a b L R by simp
    next
      case (Inr c)
      have a: "createComments P g (sig # sigs) (cs, lg, d)
                 = createComments P g sigs (cs @ [c], lg, d')"
        using Pair Inr by simp
      have b: "createComments P g (sig # sigs) (cs, [], d)
                 = createComments P g sigs (cs @ [c], [], d')"
        using Pair Inr by simp
      show ?thesis unfolding a b by (rule Cons.IH)
    qed
  qed
qed

lemma createSections_console:
  "createSections P cs hs (ss, lg, d) =
     (fst (createSections P cs hs (ss, [], d)),
      lg @ fst (snd (createSections P cs hs (ss, [], d))),
      snd (snd (createSections P cs hs (ss, [], d))))"
proof (induction hs arbitrary: ss lg d)
  case Nil
  show ?case by simp
next
  case (Cons h hs)
  show ?case
  proof (cases "createSection P h cs ss d")
    case (Pair r d')
    show ?thesis
    proof (cases r)
      case (Inl e)
      have a: "createSections P cs (h # hs) (ss, lg, d)
                 = createSections P cs hs (ss, logError e lg, d')"
        using Pair Inl by simp
      have b: "createSections P cs (h # hs) (ss, [], d)
                 = createSections P cs hs (ss, logError e [], d')"
        using Pair Inl by simp
      have L: "createSections P cs hs (ss, logError e lg, d') =
                 (fst (createSections P cs hs (ss, [], d')),
                  logError e lg @ fst (snd (createSections P cs hs (ss, [], d'))),
                  snd (snd (createSections P cs hs (ss, [], d'))))"
        by (rule Cons.IH)
      have R: "createSections P cs hs (ss, logError e [], d') =
                 (fst (createSections P cs hs (ss, [], d')),
                  logError e [] @ fst (snd (createSections P cs hs (ss, [], d'))),
                  snd (snd (createSections P cs hs (ss, [], d'))))"
        by (rule Cons.IH)
      have "logError e lg = lg @ logError e []" by (rule logError_append)
      then show ?thesis
        unfolding a b L R by simp
    next
      case (Inr s)
      let ?ss = "if section_id s \<noteq> None then ss @ [s] else ss"
      have a: "createSections P cs (h # hs) (ss, lg, d) = createSections P cs hs (?ss, lg, d')"
        using Pair Inr by simp
      have b: "createSections P cs (h # hs) (ss, [], d) = createSections P cs hs (?ss, [], d')"
        using Pair Inr by simp
      show ?thesis unfolding a b by (rule Cons.IH)
    qed
  qed
qed




lemma identifyReplies_None: "identifyReplies cs = None \<longleftrightarrow> cs = []"
  by (simp add: identifyReplies_def split: list.splits)

lemma parse_result:
  "\<exists>r cs ss reg d lgs ps.
     (\<forall>w. cd_g w = g \<and> cd_config w = c \<and> tree w = d0 \<longrightarrow>
        parse X w = (r, w\<lparr>cd_comments := cs, cd_sections := ss, commentAnchors := reg,
                         tree := d, console := console w @ lgs, posted := posted w @ ps\<rparr>)) \<and>
     map comment_id cs = [0..<length cs] \<and>
     (case r of None \<Rightarrow> ps = [parseResponse cs] \<and> cs = [] | Some e \<Rightarrow> ps = [])"
proof -
  define P where "P = newParser X g c"
  show ?thesis
  proof (cases "findTimestamps P d0")
    case T: (Pair r1 d1)
    show ?thesis
    proof (cases r1)
      case (Inl e)
      with T have "\<forall>w. cd_g w = g \<and> cd_config w = c \<and> tree w = d0 \<longrightarrow>
        parse X w = (Some e, w\<lparr>cd_comments := [], cd_sections := [], commentAnchors := [],
                         tree := d1, console := console w @ [], posted := posted w @ []\<rparr>)"
        by (simp add: parse_def resetCommentAnchors_def Let_def P_def [symmetric])
      then show ?thesis
        by (intro exI [of _ "Some e"] exI [of _ "[]"] exI [of _ d1]) simp
    next
      case TS: (Inr ts)
      show ?thesis
      proof (cases "findSignatures P ts [] d1")
        case S: (Pair r2 d2)
        show ?thesis
        proof (cases r2)
          case (Inl e)
          with T TS S have "\<forall>w. cd_g w = g \<and> cd_config w = c \<and> tree w = d0 \<longrightarrow>
            parse X w = (Some e, w\<lparr>cd_comments := [], cd_sections := [], commentAnchors := [],
                         tree := d2, console := console w @ [], posted := posted w @ []\<rparr>)"
            by (simp add: parse_def resetCommentAnchors_def Let_def P_def [symmetric])
          then show ?thesis
            by (intro exI [of _ "Some e"] exI [of _ "[]"] exI [of _ d2]) simp
        next
          case SR: (Inr sr)
          obtain sigs reg where sr: "sr = (sigs, reg)" by (cases sr)
          obtain cs lgA d3 where A: "createComments P g sigs ([], [], d2) = (cs, lgA, d3)"
            by (cases "createComments P g sigs ([], [], d2)")
          have A': "createComments P g sigs ([], lg, d2) = (cs, lg @ lgA, d3)" for lg
            by (subst createComments_console) (simp add: A)
          have ids: "map comment_id cs = [0..<length cs]"
            using createComments_ids [of "[]" P g sigs "[]" d2] by (simp add: A)
          show ?thesis
          proof (cases "findHeadings P d3")
            case H: (Pair r3 d4)
            show ?thesis
            proof (cases r3)
              case (Inl e)
              with T TS S SR sr H A' have "\<forall>w. cd_g w = g \<and> cd_config w = c \<and> tree w = d0 \<longrightarrow>
                parse X w = (Some e, w\<lparr>cd_comments := cs, cd_sections := [],
                         commentAnchors := reg, tree := d4, console := console w @ lgA,
                         posted := posted w @ []\<rparr>)"
                by (simp add: parse_def resetCommentAnchors_def Let_def P_def [symmetric])
              with ids show ?thesis
                by (intro exI [of _ "Some e"] exI [of _ cs] exI [of _ "[]"]
                      exI [of _ reg] exI [of _ d4] exI [of _ lgA]) simp
            next
              case HS: (Inr hs)
              obtain ss lgB d5 where B: "createSections P cs hs ([], [], d4) = (ss, lgB, d5)"
                by (cases "createSections P cs hs ([], [], d4)")
              have B': "createSections P cs hs ([], lg, d4) = (ss, lg @ lgB, d5)" for lg
                by (subst createSections_console) (simp add: B)
              show ?thesis
              proof (cases "identifyReplies cs")
                case None
                then have e: "cs = []" by (simp add: identifyReplies_None)
                from T TS S SR sr H HS A' B' None
                have "\<forall>w. cd_g w = g \<and> cd_config w = c \<and> tree w = d0 \<longrightarrow>
                  parse X w = (None, w\<lparr>cd_comments := cs, cd_sections := ss,
                         commentAnchors := reg, tree := d5, console := console w @ (lgA @ lgB),
                         posted := posted w @ [parseResponse cs]\<rparr>)"
                  by (simp add: parse_def resetCommentAnchors_def Let_def P_def [symmetric])
                with ids e show ?thesis
                  by (intro exI [of _ "None :: error option"] exI [of _ cs] exI [of _ ss]
                      exI [of _ reg] exI [of _ d5] exI [of _ "lgA @ lgB"]
                      exI [of _ "[parseResponse cs]"]) simp
              next
                case (Some e)
                from T TS S SR sr H HS A' B' Some
                have "\<forall>w. cd_g w = g \<and> cd_config w = c \<and> tree w = d0 \<longrightarrow>
                  parse X w = (Some e, w\<lparr>cd_comments := cs, cd_sections := ss,
                         commentAnchors := reg, tree := d5, console := console w @ (lgA @ lgB),
                         posted := posted w @ []\<rparr>)"
                  by (simp add: parse_def resetCommentAnchors_def Let_def P_def [symmetric])
                with ids show ?thesis
                  by (intro exI [of _ "Some e"] exI [of _ cs] exI [of _ ss]
                      exI [of _ reg] exI [of _ d5] exI [of _ "lgA @ lgB"]) simp
              qed
            qed
          qed
        qed
      qed
    qed
  qed
qed

text \<open>
  What the handler of a parse request does depends on the worker only through \<^verbatim>\<open>cd.g\<close>
  as it stands after the merge, here \<open>G\<close>.
\<close>

lemma handler_parse:
  "\<exists>r ps cs. map comment_id cs = [0..<length cs] \<and>
     (\<forall>w. Object_assign (cd_g w) (req_g req) = G \<longrightarrow>
        fst (onMessageFromWindow X w (Parse req)) = r \<and>
        posted (snd (onMessageFromWindow X w (Parse req))) = posted w @ ps \<and>
        cd_g (snd (onMessageFromWindow X w (Parse req))) = G \<and>
        cd_comments (snd (onMessageFromWindow X w (Parse req)))
          = (if isl (prepare X G (req_config req) (req_text req)) then cd_comments w else cs) \<and>
        (case r of
           None \<Rightarrow> ps = [parseResponse cs] \<and> cs = [] \<and>
                   \<not> isl (prepare X G (req_config req) (req_text req))
         | Some e \<Rightarrow> ps = []))"
proof (cases "prepare X G (req_config req) (req_text req)")
  case (Inl e)
  then have "\<forall>w. Object_assign (cd_g w) (req_g req) = G \<longrightarrow>
      fst (onMessageFromWindow X w (Parse req)) = Some e \<and>
      posted (snd (onMessageFromWindow X w (Parse req))) = posted w @ [] \<and>
      cd_g (snd (onMessageFromWindow X w (Parse req))) = G \<and>
      cd_comments (snd (onMessageFromWindow X w (Parse req))) = cd_comments w"
    by (simp add: onMessageFromWindow_def Let_def)
  with Inl show ?thesis
    by (intro exI [of _ "Some e"] exI [of _ "[]"]) simp
next
  case (Inr d)
  from parse_result [of G "req_config req" d X]
  obtain r cs ss reg d' lgs ps where
    P: "\<And>w. cd_g w = G \<Longrightarrow> cd_config w = req_config req \<Longrightarrow> tree w = d \<Longrightarrow>
        parse X w = (r, w\<lparr>cd_comments := cs, cd_sections := ss, commentAnchors := reg,
                         tree := d', console := console w @ lgs, posted := posted w @ ps\<rparr>)"
    and I: "map comment_id cs = [0..<length cs]"
    and R: "case r of None \<Rightarrow> ps = [parseResponse cs] \<and> cs = [] | Some e \<Rightarrow> ps = []"
    by blast
  have "fst (onMessageFromWindow X w (Parse req)) = r \<and>
      posted (snd (onMessageFromWindow X w (Parse req))) = posted w @ ps \<and>
      cd_g (snd (onMessageFromWindow X w (Parse req))) = G \<and>
      cd_comments (snd (onMessageFromWindow X w (Parse req))) = cs"
    if "Object_assign (cd_g w) (req_g req) = G" for w
    using Inr that by (simp add: onMessageFromWindow_def Let_def P)
  with R I Inr show ?thesis
    by (intro exI [of _ r] exI [of _ ps] exI [of _ cs]) (simp split: option.splits)
qed














section \<open>The page, evaluated\<close>

lemma demo_resolve:
  "resolveParts demoParser (demoSig el a) d = (Inr (rev (demoParts el)), d)"
  by (simp add: resolveParts_def demoParser_def demoSig_def)

lemma demo_plain:
  "fst (CommentSkeleton demoParser demoG [] (demoSig 10 ''Alice'') demoTree) =
     Inr (demoComment 0 ''Alice'' [\<lparr>node = 5, isHeading = False\<rparr>] [5] 0 False None)"
  by (simp add: model_simps demo_simps demoComment_def)

lemma demo_floated:
  "CommentSkeleton demoParser demoG cs (demoSig 11 ''Bob'') demoTree = (Inl CdError, demoTree)"
  by (simp add: model_simps demo_simps)

lemma demo_opening:
  "fst (CommentSkeleton demoParser demoG [] (demoSig 12 ''Alice'') demoTree) =
     Inr (demoComment 0 ''Alice''
            [\<lparr>node = 1, isHeading = True\<rparr>, \<lparr>node = 6, isHeading = False\<rparr>] [6] 0 True (Some 2))"
  by (simp add: model_simps demo_simps demoComment_def)

lemma demo_reply:
  "fst (CommentSkeleton demoParser demoG [] (demoSig 13 ''Alice'') demoTree) =
     Inr (demoComment 0 ''Alice'' [\<lparr>node = 3, isHeading = False\<rparr>] [3] 1 False None)"
  by (simp add: model_simps demo_simps demoComment_def)

lemma demo_boxed:
  "fst (CommentSkeleton demoParser demoG [] (demoSig 14 ''Carol'') demoTree) =
     Inr (demoComment 0 ''Carol''
            [\<lparr>node = 4, isHeading = False\<rparr>, \<lparr>node = 8, isHeading = False\<rparr>] [8] 0 False None)"
  by (simp add: model_simps demo_simps demoComment_def)

lemma demo_listed:
  "fst (CommentSkeleton demoParser demoG [] (demoSig 15 ''Dave'') demoTree) =
     Inr (demoComment 0 ''Dave''
            [\<lparr>node = 4, isHeading = False\<rparr>, \<lparr>node = 9, isHeading = False\<rparr>] [9] 1 False None)"
  by (simp add: model_simps demo_simps demoComment_def)

lemma demo_created:
  "fst (createComments demoParser demoG demoSignatures ([], [], demoTree)) =
     [demoComment 0 ''Alice'' [\<lparr>node = 5, isHeading = False\<rparr>] [5] 0 False None,
      demoComment 1 ''Carol''
        [\<lparr>node = 4, isHeading = False\<rparr>, \<lparr>node = 8, isHeading = False\<rparr>] [8] 0 False None]"
  by (simp add: model_simps demo_simps demoComment_def)

lemmas handler_simps =
  onMessageFromWindow_def parse_def resetCommentAnchors_def initialWorker_def
  identifyReplies_def Object_assign_def

lemma demo_parsed:
  "fst demoParsed = Some TypeError \<and>
   posted (snd demoParsed) = [] \<and>
   map comment_id (cd_comments (snd demoParsed)) = [0, 1] \<and>
   map authorName (cd_comments (snd demoParsed)) = [''Alice'', ''Carol''] \<and>
   cd_g (snd demoParsed) = demoG"
  by (simp add: demoParsed_def model_simps demo_simps handler_simps)

lemma demo_used:
  "fst (onMessageFromWindow demoBoxX demoWorker (Parse demoRequest)) = None \<and>
   posted demoUsedWorker = [parseResponse []] \<and>
   cd_comments demoUsedWorker = [] \<and>
   cd_g demoUsedWorker = demoG \<and>
   alarmTimeout demoUsedWorker = None \<and> timers demoUsedWorker = [] \<and>
   nextTimer demoUsedWorker = 1"
  by (simp add: demoUsedWorker_def model_simps demo_simps handler_simps)




section \<open>The claims\<close>

text \<open>
  Claim C1 says that every parse request is answered by exactly one message
  \<^verbatim>\<open>{ type: "parse", comments, sections }\<close> holding the comment records and the section
  records. On the small page two comments are constructed; the loop over \<^verbatim>\<open>cd.comments\<close>
  then calls \<^verbatim>\<open>getChildren\<close>, which the class does not define, the handler ends with a
  TypeError and no message is posted. A request is answered only when no comment has been
  constructed, as on the page whose one signature has the unhighlightable box for its only
  part: the message then has the keys \<^verbatim>\<open>type\<close> and \<^verbatim>\<open>comments\<close>, no key
  \<^verbatim>\<open>sections\<close>, and no comment in it.
\<close>

theorem parse_request_with_comments_unanswered:
  "fst (onMessageFromWindow demoX demoWorker (Parse demoRequest)) = Some TypeError \<and>
   posted (snd (onMessageFromWindow demoX demoWorker (Parse demoRequest))) = [] \<and>
   map authorName (cd_comments (snd (onMessageFromWindow demoX demoWorker (Parse demoRequest))))
     = [''Alice'', ''Carol''] \<and>
   fst (onMessageFromWindow demoBoxX demoWorker (Parse demoRequest)) = None \<and>
   posted (snd (onMessageFromWindow demoBoxX demoWorker (Parse demoRequest)))
     = [[(''type'', JString ''parse''), (''comments'', JComments [])]] \<and>
   map_of (hd (posted (snd (onMessageFromWindow demoBoxX demoWorker (Parse demoRequest)))))
     ''sections'' = None"
  using demo_parsed demo_used by (simp add: demoParsed_def demoUsedWorker_def parseResponse_def)



text \<open>
  Claim C3 says that the parts of every comment are all highlightable. The third signature
  of the small page has two parts, the box with the unhighlightable class and a paragraph;
  the comment is constructed and keeps both parts, and the box is not highlightable, neither
  in the tree as parsed nor in the tree the constructor leaves.
\<close>

theorem unhighlightable_part_in_comment:
  "fst (CommentSkeleton demoParser demoG [] (demoSig 14 ''Carol'') demoTree) =
     Inr (demoComment 0 ''Carol''
            [\<lparr>node = 4, isHeading = False\<rparr>, \<lparr>node = 8, isHeading = False\<rparr>] [8] 0 False None) \<and>
   \<not> isHighlightable demoG (demoTree 4) \<and>
   \<not> isHighlightable demoG
       (snd (CommentSkeleton demoParser demoG [] (demoSig 14 ''Carol'') demoTree) 4)"
  using demo_boxed by (simp add: model_simps demo_simps)

text \<open>
  Claim C3, as the constructor behaves: the comment keeps the resolved parts in \<open>parts\<close>,
  highlightable or not, and collects the highlightable ones in \<open>highlightables\<close>. For
  every constructed comment
  \<^item> \<open>parts\<close> is not empty and is the list of the resolved parts, without its first part
    when that is a heading and the level of the comment is not 0, and \<open>elements\<close> are the
    elements of \<open>parts\<close>;
  \<^item> \<open>highlightables\<close> is not empty and consists of exactly those elements of the
    resolved parts that are highlightable in the tree as the parser left it.

  When no resolved part is highlightable the constructor throws \<^verbatim>\<open>CdError\<close>, so there is
  no comment.
\<close>

theorem constructed_comment_parts:
  assumes "resolveParts P sig d = (Inr ps, d1)"
  shows "(filter (\<lambda>el. isHighlightable g (d1 el)) (map node ps) = []
            \<longrightarrow> CommentSkeleton P g cs sig d = (Inl CdError, d1)) \<and>
         (fst (CommentSkeleton P g cs sig d) = Inr c
            \<longrightarrow> parts c \<noteq> [] \<and> highlightables c \<noteq> [] \<and>
                highlightables c = filter (\<lambda>el. isHighlightable g (d1 el)) (map node ps) \<and>
                list_all (\<lambda>el. isHighlightable g (d1 el)) (highlightables c) \<and>
                parts c = (if isHeading (hd ps) \<and> level c \<noteq> 0 then tl ps else ps) \<and>
                elements c = map node (parts c))"
proof (intro conjI impI)
  assume "filter (\<lambda>el. isHighlightable g (d1 el)) (map node ps) = []"
  with assms show "CommentSkeleton P g cs sig d = (Inl CdError, d1)"
    by (rule CommentSkeleton_no_highlightable)
next
  assume C: "fst (CommentSkeleton P g cs sig d) = Inr c"
  from CommentSkeleton_Inr [OF assms C] obtain d3 lv where
    ne: "filter (\<lambda>el. isHighlightable g (d1 el)) (map node ps) \<noteq> []" and
    fin: "fst (finish g (length cs) sig ps (map node ps)
                 (filter (\<lambda>el. isHighlightable g (d1 el)) (map node ps)) lv d3) = Inr c"
    by blast
  from finish_Inr [OF fin] have
    hl: "highlightables c = filter (\<lambda>el. isHighlightable g (d1 el)) (map node ps)"
    and pc: "parts c \<noteq> []"
    and lv: "level c = lv"
    and nn: "ps \<noteq> []"
    and sp: "if isHeading (hd ps) \<and> lv \<noteq> 0
             then parts c = tl ps \<and> elements c = tl (map node ps)
             else parts c = ps \<and> elements c = map node ps"
    by simp_all
  show "parts c \<noteq> []" by (rule pc)
  show "highlightables c \<noteq> []" using hl ne by simp
  show "highlightables c = filter (\<lambda>el. isHighlightable g (d1 el)) (map node ps)" by (rule hl)
  show "list_all (\<lambda>el. isHighlightable g (d1 el)) (highlightables c)"
    unfolding hl by (simp add: list_all_iff)
  show "parts c = (if isHeading (hd ps) \<and> level c \<noteq> 0 then tl ps else ps)"
    using sp lv by (simp split: if_splits)
  show "elements c = map node (parts c)"
    using sp nn by (auto simp: map_tl split: if_splits)
qed

theorem constructed_comment_parts_witness:
  "resolveParts demoParser (demoSig 11 ''Bob'') demoTree
     = (Inr [\<lparr>node = 2, isHeading = False\<rparr>], demoTree) \<and>
   filter (\<lambda>el. isHighlightable demoG (demoTree el)) (map node [\<lparr>node = 2, isHeading = False\<rparr>])
     = [] \<and>
   CommentSkeleton demoParser demoG [] (demoSig 11 ''Bob'') demoTree = (Inl CdError, demoTree) \<and>
   resolveParts demoParser (demoSig 14 ''Carol'') demoTree
     = (Inr [\<lparr>node = 4, isHeading = False\<rparr>, \<lparr>node = 8, isHeading = False\<rparr>], demoTree) \<and>
   fst (CommentSkeleton demoParser demoG [] (demoSig 14 ''Carol'') demoTree) =
     Inr (demoComment 0 ''Carol''
            [\<lparr>node = 4, isHeading = False\<rparr>, \<lparr>node = 8, isHeading = False\<rparr>] [8] 0 False None) \<and>
   highlightables (demoComment 0 ''Carol''
            [\<lparr>node = 4, isHeading = False\<rparr>, \<lparr>node = 8, isHeading = False\<rparr>] [8] 0 False None)
     = filter (\<lambda>el. isHighlightable demoG (demoTree el))
         (map node [\<lparr>node = 4, isHeading = False\<rparr>, \<lparr>node = 8, isHeading = False\<rparr>]) \<and>
   list_all (\<lambda>el. isHighlightable demoG (demoTree el))
     (highlightables (demoComment 0 ''Carol''
            [\<lparr>node = 4, isHeading = False\<rparr>, \<lparr>node = 8, isHeading = False\<rparr>] [8] 0 False None)) \<and>
   parts (demoComment 0 ''Carol''
            [\<lparr>node = 4, isHeading = False\<rparr>, \<lparr>node = 8, isHeading = False\<rparr>] [8] 0 False None)
     = [\<lparr>node = 4, isHeading = False\<rparr>, \<lparr>node = 8, isHeading = False\<rparr>] \<and>
   resolveParts demoParser (demoSig 13 ''Alice'') demoTree
     = (Inr [\<lparr>node = 1, isHeading = True\<rparr>, \<lparr>node = 3, isHeading = False\<rparr>], demoTree) \<and>
   fst (CommentSkeleton demoParser demoG [] (demoSig 13 ''Alice'') demoTree) =
     Inr (demoComment 0 ''Alice'' [\<lparr>node = 3, isHeading = False\<rparr>] [3] 1 False None) \<and>
   parts (demoComment 0 ''Alice'' [\<lparr>node = 3, isHeading = False\<rparr>] [3] 1 False None)
     = tl [\<lparr>node = 1, isHeading = True\<rparr>, \<lparr>node = 3, isHeading = False\<rparr>]"
proof -
  have r1: "resolveParts demoParser (demoSig 11 ''Bob'') demoTree
              = (Inr [\<lparr>node = 2, isHeading = False\<rparr>], demoTree)"
    by (simp add: demo_resolve demoParts_def)
  have f1: "filter (\<lambda>el. isHighlightable demoG (demoTree el))
              (map node [\<lparr>node = 2, isHeading = False\<rparr>]) = []"
    by (simp add: model_simps demo_simps)
  have r2: "resolveParts demoParser (demoSig 14 ''Carol'') demoTree
     = (Inr [\<lparr>node = 4, isHeading = False\<rparr>, \<lparr>node = 8, isHeading = False\<rparr>], demoTree)"
    by (simp add: demo_resolve demoParts_def)
  have r3: "resolveParts demoParser (demoSig 13 ''Alice'') demoTree
     = (Inr [\<lparr>node = 1, isHeading = True\<rparr>, \<lparr>node = 3, isHeading = False\<rparr>], demoTree)"
    by (simp add: demo_resolve demoParts_def)
  from constructed_comment_parts [OF r1, of demoG "[]"] f1
  have a: "CommentSkeleton demoParser demoG [] (demoSig 11 ''Bob'') demoTree
             = (Inl CdError, demoTree)"
    by blast
  from constructed_comment_parts [OF r2, of demoG "[]"] demo_boxed
  have b: "highlightables (demoComment 0 ''Carol''
            [\<lparr>node = 4, isHeading = False\<rparr>, \<lparr>node = 8, isHeading = False\<rparr>] [8] 0 False None)
     = filter (\<lambda>el. isHighlightable demoG (demoTree el))
         (map node [\<lparr>node = 4, isHeading = False\<rparr>, \<lparr>node = 8, isHeading = False\<rparr>]) \<and>
   list_all (\<lambda>el. isHighlightable demoG (demoTree el))
     (highlightables (demoComment 0 ''Carol''
            [\<lparr>node = 4, isHeading = False\<rparr>, \<lparr>node = 8, isHeading = False\<rparr>] [8] 0 False None))"
    by blast
  have c: "parts (demoComment 0 ''Carol''
            [\<lparr>node = 4, isHeading = False\<rparr>, \<lparr>node = 8, isHeading = False\<rparr>] [8] 0 False None)
     = [\<lparr>node = 4, isHeading = False\<rparr>, \<lparr>node = 8, isHeading = False\<rparr>]"
    by (simp add: demoComment_def)
  from constructed_comment_parts [OF r3, of demoG "[]"] demo_reply
  have "parts (demoComment 0 ''Alice'' [\<lparr>node = 3, isHeading = False\<rparr>] [3] 1 False None)
     = (if isHeading (hd [\<lparr>node = 1, isHeading = True\<rparr>, \<lparr>node = 3, isHeading = False\<rparr>]) \<and>
           level (demoComment 0 ''Alice'' [\<lparr>node = 3, isHeading = False\<rparr>] [3] 1 False None) \<noteq> 0
        then tl [\<lparr>node = 1, isHeading = True\<rparr>, \<lparr>node = 3, isHeading = False\<rparr>]
        else [\<lparr>node = 1, isHeading = True\<rparr>, \<lparr>node = 3, isHeading = False\<rparr>])"
    by blast
  then have e: "parts (demoComment 0 ''Alice'' [\<lparr>node = 3, isHeading = False\<rparr>] [3] 1 False None)
     = tl [\<lparr>node = 1, isHeading = True\<rparr>, \<lparr>node = 3, isHeading = False\<rparr>]"
    by (simp add: demoComment_def)
  from r1 f1 a r2 demo_boxed b c r3 demo_reply e show ?thesis by (intro conjI) blast+
qed

text \<open>
  Claim C4 says that a heading at the front of the parts is dropped when the level is 0 and
  kept otherwise. On the small page the comment of level 0 that starts with the heading
  keeps the heading as its first part, and the comment of level 1 that starts with the
  heading has lost it.
\<close>

theorem heading_kept_at_top_level:
  "resolveParts demoParser (demoSig 12 ''Alice'') demoTree
     = (Inr [\<lparr>node = 1, isHeading = True\<rparr>, \<lparr>node = 6, isHeading = False\<rparr>], demoTree) \<and>
   fst (CommentSkeleton demoParser demoG [] (demoSig 12 ''Alice'') demoTree) =
     Inr (demoComment 0 ''Alice''
            [\<lparr>node = 1, isHeading = True\<rparr>, \<lparr>node = 6, isHeading = False\<rparr>] [6] 0 True (Some 2)) \<and>
   resolveParts demoParser (demoSig 13 ''Alice'') demoTree
     = (Inr [\<lparr>node = 1, isHeading = True\<rparr>, \<lparr>node = 3, isHeading = False\<rparr>], demoTree) \<and>
   fst (CommentSkeleton demoParser demoG [] (demoSig 13 ''Alice'') demoTree) =
     Inr (demoComment 0 ''Alice'' [\<lparr>node = 3, isHeading = False\<rparr>] [3] 1 False None)"
  using demo_opening demo_reply by (simp add: demo_resolve demoParts_def)

text \<open>
  Claim C4, as the constructor behaves: when the first resolved part is a heading,
  \<open>followsHeading\<close> is true; at a level other than 0 the heading is removed from \<open>parts\<close>
  and \<open>elements\<close>; at level 0 it stays the first part and the comment opens a section.
\<close>

theorem heading_dropped_below_top_level:
  assumes R: "resolveParts P sig d = (Inr (p0 # rest), d1)"
    and C: "fst (CommentSkeleton P g cs sig d) = Inr c"
    and H: "isHeading p0"
  shows "followsHeading c \<and>
         (if level c \<noteq> 0 then parts c = rest \<and> elements c = map node rest
          else parts c = p0 # rest \<and> elements c = node p0 # map node rest \<and>
               isOpeningSection c)"
proof -
  from CommentSkeleton_Inr [OF R C] obtain d3 lv where
    fin: "fst (finish g (length cs) sig (p0 # rest) (map node (p0 # rest))
                 (filter (\<lambda>el. isHighlightable g (d1 el)) (map node (p0 # rest))) lv d3) = Inr c"
    by blast
  from finish_Inr [OF fin] H show ?thesis by (auto split: if_splits)
qed

theorem heading_dropped_below_top_level_witness:
  "resolveParts demoParser (demoSig 13 ''Alice'') demoTree
     = (Inr (\<lparr>node = 1, isHeading = True\<rparr> # [\<lparr>node = 3, isHeading = False\<rparr>]), demoTree) \<and>
   fst (CommentSkeleton demoParser demoG [] (demoSig 13 ''Alice'') demoTree) =
     Inr (demoComment 0 ''Alice'' [\<lparr>node = 3, isHeading = False\<rparr>] [3] 1 False None) \<and>
   isHeading \<lparr>node = 1, isHeading = True\<rparr> \<and>
   followsHeading (demoComment 0 ''Alice'' [\<lparr>node = 3, isHeading = False\<rparr>] [3] 1 False None) \<and>
   level (demoComment 0 ''Alice'' [\<lparr>node = 3, isHeading = False\<rparr>] [3] 1 False None) = 1 \<and>
   parts (demoComment 0 ''Alice'' [\<lparr>node = 3, isHeading = False\<rparr>] [3] 1 False None)
     = [\<lparr>node = 3, isHeading = False\<rparr>] \<and>
   elements (demoComment 0 ''Alice'' [\<lparr>node = 3, isHeading = False\<rparr>] [3] 1 False None)
     = map node [\<lparr>node = 3, isHeading = False\<rparr>]"
proof -
  have r: "resolveParts demoParser (demoSig 13 ''Alice'') demoTree
     = (Inr (\<lparr>node = 1, isHeading = True\<rparr> # [\<lparr>node = 3, isHeading = False\<rparr>]), demoTree)"
    by (simp add: demo_resolve demoParts_def)
  have h: "isHeading \<lparr>node = 1, isHeading = True\<rparr>" by simp
  have l: "level (demoComment 0 ''Alice'' [\<lparr>node = 3, isHeading = False\<rparr>] [3] 1 False None) = 1"
    by (simp add: demoComment_def)
  from heading_dropped_below_top_level [OF r demo_reply h] l r demo_reply h
  show ?thesis by simp
qed

text \<open>
  Claim C5 says that \<open>followsHeading\<close> is true exactly when the parts begin with a heading.
  The first signature of the small page has one part, a paragraph that is not a heading, and
  the constructed comment has \<open>followsHeading = True\<close>: both branches of the test store
  \<^verbatim>\<open>true\<close>.
\<close>

theorem followsHeading_without_heading:
  "resolveParts demoParser (demoSig 10 ''Alice'') demoTree
     = (Inr [\<lparr>node = 5, isHeading = False\<rparr>], demoTree) \<and>
   fst (CommentSkeleton demoParser demoG [] (demoSig 10 ''Alice'') demoTree) =
     Inr (demoComment 0 ''Alice'' [\<lparr>node = 5, isHeading = False\<rparr>] [5] 0 False None) \<and>
   followsHeading (demoComment 0 ''Alice'' [\<lparr>node = 5, isHeading = False\<rparr>] [5] 0 False None)"
  using demo_plain by (simp add: demo_resolve demoParts_def demoComment_def)

text \<open>
  Claim C6 says that the level is the smaller of the counts found walking up from the top
  fragment and from the bottom fragment of the comment. On the small page the comment with
  the parts 4 and 9 has the unhighlightable box 4 for its top fragment and the paragraph 9
  in the list for its bottom fragment. The walk from 4 counts no level element, the walk
  from 9 counts one; the smaller count is 0, and the level of the comment is 1.
\<close>

theorem level_not_from_top_fragment:
  "resolveParts demoParser (demoSig 15 ''Dave'') demoTree
     = (Inr [\<lparr>node = 4, isHeading = False\<rparr>, \<lparr>node = 9, isHeading = False\<rparr>], demoTree) \<and>
   fst (CommentSkeleton demoParser demoG [] (demoSig 15 ''Dave'') demoTree) =
     Inr (demoComment 0 ''Dave''
            [\<lparr>node = 4, isHeading = False\<rparr>, \<lparr>node = 9, isHeading = False\<rparr>] [9] 1 False None) \<and>
   fst (getLevelsUpTree demoParser 4 Top demoTree) = Inr [] \<and>
   fst (getLevelsUpTree demoParser 9 Bottom demoTree) = Inr [Some 7] \<and>
   fst (getLevelsUpTree demoParser 4 Top
          (snd (CommentSkeleton demoParser demoG [] (demoSig 15 ''Dave'') demoTree))) = Inr [] \<and>
   fst (getLevelsUpTree demoParser 9 Bottom
          (snd (CommentSkeleton demoParser demoG [] (demoSig 15 ''Dave'') demoTree)))
     = Inr [Some 7] \<and>
   level (demoComment 0 ''Dave''
            [\<lparr>node = 4, isHeading = False\<rparr>, \<lparr>node = 9, isHeading = False\<rparr>] [9] 1 False None)
     \<noteq> min (length ([] :: elemref option list)) (length [Some (7 :: elemref)])"
proof -
  have a: "resolveParts demoParser (demoSig 15 ''Dave'') demoTree
     = (Inr [\<lparr>node = 4, isHeading = False\<rparr>, \<lparr>node = 9, isHeading = False\<rparr>], demoTree)"
    by (simp add: demo_resolve demoParts_def)
  have b: "fst (getLevelsUpTree demoParser 4 Top d) = Inr [] \<and>
           fst (getLevelsUpTree demoParser 9 Bottom d) = Inr [Some 7]" for d
    by (simp add: demoParser_def)
  have c: "level (demoComment 0 ''Dave''
            [\<lparr>node = 4, isHeading = False\<rparr>, \<lparr>node = 9, isHeading = False\<rparr>] [9] 1 False None)
     \<noteq> min (length ([] :: elemref option list)) (length [Some (7 :: elemref)])"
    by (simp add: demoComment_def)
  from a demo_listed b c show ?thesis by (intro conjI) blast+
qed

text \<open>
  Claim C6, as the constructor behaves: the level of a constructed comment is the smaller
  of two counts, the number of level elements \<^verbatim>\<open>getLevelsUpTree\<close> finds walking up from
  the first highlightable element of the comment and the number it finds walking up from
  the last highlightable element, where a comment of a single element uses the top walk for
  both. The walks are made in the tree as \<^verbatim>\<open>addAttributes\<close> left it.
\<close>

theorem level_is_min_of_walks:
  assumes R: "resolveParts P sig d = (Inr ps, d1)"
    and C: "fst (CommentSkeleton P g cs sig d) = Inr c"
  shows "\<exists>d2 d3 d4 tops bots.
           addAttributes (length cs) (sig_anchor sig) (map node ps) d1 = (Inr (), d2) \<and>
           getLevelsUpTree P (hd (highlightables c)) Top d2 = (Inr tops, d3) \<and>
           (if length ps > 1
            then getLevelsUpTree P (last (highlightables c)) Bottom d3 = (Inr bots, d4)
            else bots = tops) \<and>
           level c = min (length tops) (length bots)"
proof -
  let ?hls = "filter (\<lambda>el. isHighlightable g (d1 el)) (map node ps)"
  from CommentSkeleton_Inr [OF R C] obtain d2 d3 lv where
    aa: "addAttributes (length cs) (sig_anchor sig) (map node ps) d1 = (Inr (), d2)" and
    sl: "setLevels P (map node ps) ?hls d2 = (Inr lv, d3)" and
    fin: "fst (finish g (length cs) sig ps (map node ps) ?hls lv d3) = Inr c"
    by blast
  from finish_Inr [OF fin] have hl: "highlightables c = ?hls" and lv: "level c = lv"
    by simp_all
  from sl have "fst (setLevels P (map node ps) ?hls d2) = Inr lv" by simp
  from setLevels_Inr [OF this] obtain tops bots e1 e2 where
    "getLevelsUpTree P (hd ?hls) Top d2 = (Inr tops, e1)"
    "if length (map node ps) > 1 then getLevelsUpTree P (last ?hls) Bottom e1 = (Inr bots, e2)
     else bots = tops"
    "lv = min (length tops) (length bots)"
    by blast
  with aa hl lv show ?thesis
    by (intro exI [of _ d2] exI [of _ e1] exI [of _ e2] exI [of _ tops] exI [of _ bots])
       (simp split: if_splits)
qed

theorem level_is_min_of_walks_witness:
  "resolveParts demoParser (demoSig 13 ''Alice'') demoTree
     = (Inr [\<lparr>node = 1, isHeading = True\<rparr>, \<lparr>node = 3, isHeading = False\<rparr>], demoTree) \<and>
   fst (CommentSkeleton demoParser demoG [] (demoSig 13 ''Alice'') demoTree) =
     Inr (demoComment 0 ''Alice'' [\<lparr>node = 3, isHeading = False\<rparr>] [3] 1 False None) \<and>
   (\<exists>d2 d3 d4 tops bots.
      addAttributes (length ([] :: commentSkeleton list)) (sig_anchor (demoSig 13 ''Alice''))
        (map node [\<lparr>node = 1, isHeading = True\<rparr>, \<lparr>node = 3, isHeading = False\<rparr>]) demoTree
        = (Inr (), d2) \<and>
      getLevelsUpTree demoParser 3 Top d2 = (Inr tops, d3) \<and>
      getLevelsUpTree demoParser 3 Bottom d3 = (Inr bots, d4) \<and>
      tops = [Some 7] \<and> bots = [Some 7] \<and>
      level (demoComment 0 ''Alice'' [\<lparr>node = 3, isHeading = False\<rparr>] [3] 1 False None)
        = min (length tops) (length bots))"
proof -
  have r: "resolveParts demoParser (demoSig 13 ''Alice'') demoTree
     = (Inr [\<lparr>node = 1, isHeading = True\<rparr>, \<lparr>node = 3, isHeading = False\<rparr>], demoTree)"
    by (simp add: demo_resolve demoParts_def)
  from level_is_min_of_walks [OF r demo_reply] obtain d2 d3 d4 tops bots where
    w: "addAttributes (length ([] :: commentSkeleton list)) (sig_anchor (demoSig 13 ''Alice''))
        (map node [\<lparr>node = 1, isHeading = True\<rparr>, \<lparr>node = 3, isHeading = False\<rparr>]) demoTree
        = (Inr (), d2)"
       "getLevelsUpTree demoParser 3 Top d2 = (Inr tops, d3)"
       "getLevelsUpTree demoParser 3 Bottom d3 = (Inr bots, d4)"
       "level (demoComment 0 ''Alice'' [\<lparr>node = 3, isHeading = False\<rparr>] [3] 1 False None)
        = min (length tops) (length bots)"
    by (auto simp: demoComment_def)
  from w(2,3) have "tops = [Some 7]" "bots = [Some 7]" by (auto simp: demoParser_def)
  with w r demo_reply show ?thesis by blast
qed

text \<open>
  Claim C7: \<^verbatim>\<open>getSection\<close> returns the section created last among those whose comment
  list includes the comment, and \<^verbatim>\<open>null\<close> when no section includes it. The sections
  are in \<^verbatim>\<open>cd.sections\<close> in the order of their creation. The first read of the getter
  \<^verbatim>\<open>section\<close> returns what \<^verbatim>\<open>getSection\<close> returns.
\<close>

theorem getSection_latest_containing:
  "(getSection ss this = None \<longleftrightarrow> list_all (\<lambda>s. this \<notin> set (sec_comments s)) ss) \<and>
   (getSection ss this = Some s \<longrightarrow>
      (\<exists>i. i < length ss \<and> ss ! i = s \<and> this \<in> set (sec_comments s) \<and>
           (\<forall>j. i < j \<and> j < length ss \<longrightarrow> this \<notin> set (sec_comments (ss ! j))))) \<and>
   fst (section_getter None ss this) = getSection ss this"
proof (intro conjI impI)
  show "fst (section_getter None ss this) = getSection ss this"
    by (simp add: section_getter_def Let_def)
next
  show "getSection ss this = None \<longleftrightarrow> list_all (\<lambda>s. this \<notin> set (sec_comments s)) ss"
    by (auto simp: getSection_def find_None_iff list_all_iff)
next
  assume "getSection ss this = Some s"
  then obtain k where k: "k < length ss" "this \<in> set (sec_comments (rev ss ! k))"
    "s = rev ss ! k" "\<forall>j<k. this \<notin> set (sec_comments (rev ss ! j))"
    by (auto simp: getSection_def find_Some_iff)
  let ?i = "length ss - Suc k"
  have i: "?i < length ss" using k(1) by simp
  have s: "ss ! ?i = s" using k(1,3) by (simp add: rev_nth)
  have later: "\<forall>j. ?i < j \<and> j < length ss \<longrightarrow> this \<notin> set (sec_comments (ss ! j))"
  proof (intro allI impI)
    fix j assume j: "?i < j \<and> j < length ss"
    then have "length ss - Suc j < k" by arith
    with k(4) have "this \<notin> set (sec_comments (rev ss ! (length ss - Suc j)))" by blast
    moreover have "rev ss ! (length ss - Suc j) = ss ! j"
    proof -
      have "length ss - Suc j < length ss" using j by arith
      then have "rev ss ! (length ss - Suc j) = ss ! (length ss - Suc (length ss - Suc j))"
        by (rule rev_nth)
      moreover have "length ss - Suc (length ss - Suc j) = j" using j by arith
      ultimately show ?thesis by simp
    qed
    ultimately show "this \<notin> set (sec_comments (ss ! j))" by simp
  qed
  have mem: "this \<in> set (sec_comments s)" using k(2,3) by simp
  show "\<exists>i. i < length ss \<and> ss ! i = s \<and> this \<in> set (sec_comments s) \<and>
           (\<forall>j. i < j \<and> j < length ss \<longrightarrow> this \<notin> set (sec_comments (ss ! j)))"
    by (rule exI [of _ ?i]) (intro conjI i s mem later)
qed

theorem getSection_latest_containing_witness:
  "getSection demoSections 1 = Some (demoSections ! 1) \<and>
   (\<exists>i. i < length demoSections \<and> demoSections ! i = demoSections ! 1 \<and>
        1 \<in> set (sec_comments (demoSections ! 1)) \<and>
        (\<forall>j. i < j \<and> j < length demoSections \<longrightarrow> 1 \<notin> set (sec_comments (demoSections ! j)))) \<and>
   1 \<in> set (sec_comments (demoSections ! 0)) \<and>
   list_all (\<lambda>s. 7 \<notin> set (sec_comments s)) demoSections \<and>
   getSection demoSections 7 = None \<and>
   fst (section_getter None demoSections 1) = Some (demoSections ! 1)"
proof -
  have a: "getSection demoSections 1 = Some (demoSections ! 1)"
    by (simp add: getSection_def demoSections_def)
  have b: "list_all (\<lambda>s. 7 \<notin> set (sec_comments s)) demoSections"
    by (simp add: demoSections_def)
  have c: "1 \<in> set (sec_comments (demoSections ! 0))"
    by (simp add: demoSections_def)
  from getSection_latest_containing [of demoSections 1 "demoSections ! 1"] a
  have d: "\<exists>i. i < length demoSections \<and> demoSections ! i = demoSections ! 1 \<and>
        1 \<in> set (sec_comments (demoSections ! 1)) \<and>
        (\<forall>j. i < j \<and> j < length demoSections \<longrightarrow> 1 \<notin> set (sec_comments (demoSections ! j)))"
    by blast
  from getSection_latest_containing [of demoSections 7] b
  have e: "getSection demoSections 7 = None" by blast
  from getSection_latest_containing [of demoSections 1] a
  have f: "fst (section_getter None demoSections 1) = Some (demoSections ! 1)" by simp
  from a d c b e f show ?thesis by (intro conjI)
qed

text \<open>
  Claim C8: the id of every comment is its index in the list. This holds for
  \<^verbatim>\<open>cd.comments\<close> after the loop over any list of signatures, whichever of them were
  skipped; for the comments of the message that a parse request is answered with; and for
  \<^verbatim>\<open>cd.comments\<close> after every parse request that got as far as \<^verbatim>\<open>parse()\<close>, however
  the handler ended.
\<close>

theorem comment_ids_are_indices:
  "map comment_id (fst (createComments P g sigs ([], lg, d)))
     = [0..<length (fst (createComments P g sigs ([], lg, d)))] \<and>
   (fst (onMessageFromWindow X w (Parse req)) = None \<longrightarrow>
      last (posted (snd (onMessageFromWindow X w (Parse req))))
        = parseResponse (cd_comments (snd (onMessageFromWindow X w (Parse req)))) \<and>
      map comment_id (cd_comments (snd (onMessageFromWindow X w (Parse req))))
        = [0..<length (cd_comments (snd (onMessageFromWindow X w (Parse req))))]) \<and>
   (\<not> isl (prepare X (Object_assign (cd_g w) (req_g req)) (req_config req) (req_text req)) \<longrightarrow>
      map comment_id (cd_comments (snd (onMessageFromWindow X w (Parse req))))
        = [0..<length (cd_comments (snd (onMessageFromWindow X w (Parse req))))])"
proof -
  have first: "map comment_id (fst (createComments P g sigs ([], lg, d)))
          = [0..<length (fst (createComments P g sigs ([], lg, d)))]"
    by (rule createComments_ids) simp
  from handler_parse
         [where X = X and req = req and G = "Object_assign (cd_g w) (req_g req)"]
  obtain r ps cs where
    i: "map comment_id cs = [0..<length cs]" and
    h: "fst (onMessageFromWindow X w (Parse req)) = r \<and>
        posted (snd (onMessageFromWindow X w (Parse req))) = posted w @ ps \<and>
        cd_comments (snd (onMessageFromWindow X w (Parse req)))
          = (if isl (prepare X (Object_assign (cd_g w) (req_g req)) (req_config req)
                       (req_text req))
             then cd_comments w else cs) \<and>
        (case r of
           None \<Rightarrow> ps = [parseResponse cs] \<and> cs = [] \<and>
                   \<not> isl (prepare X (Object_assign (cd_g w) (req_g req)) (req_config req)
                            (req_text req))
         | Some e \<Rightarrow> ps = [])"
    by blast
  have second: "last (posted (snd (onMessageFromWindow X w (Parse req))))
        = parseResponse (cd_comments (snd (onMessageFromWindow X w (Parse req)))) \<and>
      map comment_id (cd_comments (snd (onMessageFromWindow X w (Parse req))))
        = [0..<length (cd_comments (snd (onMessageFromWindow X w (Parse req))))]"
    if "fst (onMessageFromWindow X w (Parse req)) = None"
    using that h by (cases r) simp_all
  have third: "map comment_id (cd_comments (snd (onMessageFromWindow X w (Parse req))))
        = [0..<length (cd_comments (snd (onMessageFromWindow X w (Parse req))))]"
    if "\<not> isl (prepare X (Object_assign (cd_g w) (req_g req)) (req_config req) (req_text req))"
    using that h i by simp
  from first second third show ?thesis by blast
qed

theorem comment_ids_are_indices_witness:
  "map sig_authorName demoSignatures = [''Alice'', ''Bob'', ''Carol''] \<and>
   map authorName (fst (createComments demoParser demoG demoSignatures ([], [], demoTree)))
     = [''Alice'', ''Carol''] \<and>
   map comment_id (fst (createComments demoParser demoG demoSignatures ([], [], demoTree)))
     = [0, 1] \<and>
   fst (onMessageFromWindow demoBoxX demoWorker (Parse demoRequest)) = None \<and>
   last (posted (snd (onMessageFromWindow demoBoxX demoWorker (Parse demoRequest))))
     = parseResponse (cd_comments (snd (onMessageFromWindow demoBoxX demoWorker
         (Parse demoRequest)))) \<and>
   \<not> isl (prepare demoX (Object_assign (cd_g demoWorker) (req_g demoRequest))
            (req_config demoRequest) (req_text demoRequest)) \<and>
   map authorName (cd_comments (snd (onMessageFromWindow demoX demoWorker (Parse demoRequest))))
     = [''Alice'', ''Carol''] \<and>
   map comment_id (cd_comments (snd (onMessageFromWindow demoX demoWorker (Parse demoRequest))))
     = [0, 1]"
proof -
  have n: "length (fst (createComments demoParser demoG demoSignatures ([], [], demoTree))) = 2"
    using demo_created by simp
  have u: "[0..<2] = [0, Suc 0]" by (simp add: upt_rec)
  have s: "map sig_authorName demoSignatures = [''Alice'', ''Bob'', ''Carol'']"
    by (simp add: demoSignatures_def demoSig_def)
  have t: "map authorName (fst (createComments demoParser demoG demoSignatures ([], [], demoTree)))
     = [''Alice'', ''Carol'']"
    using demo_created by (simp add: demoComment_def)
  have h: "fst (onMessageFromWindow demoBoxX demoWorker (Parse demoRequest)) = None"
    using demo_used by simp
  have p: "\<not> isl (prepare demoX (Object_assign (cd_g demoWorker) (req_g demoRequest))
            (req_config demoRequest) (req_text demoRequest))"
    by (simp add: demoX_def)
  have a: "map authorName (cd_comments (snd (onMessageFromWindow demoX demoWorker
             (Parse demoRequest)))) = [''Alice'', ''Carol'']"
    using demo_parsed by (simp add: demoParsed_def)
  have m: "length (cd_comments (snd (onMessageFromWindow demoX demoWorker
             (Parse demoRequest)))) = 2"
    using arg_cong [OF a, of length] by simp
  from comment_ids_are_indices
         [of demoParser demoG demoSignatures "[]" demoTree demoBoxX demoWorker demoRequest]
       h
  have l: "last (posted (snd (onMessageFromWindow demoBoxX demoWorker (Parse demoRequest))))
     = parseResponse (cd_comments (snd (onMessageFromWindow demoBoxX demoWorker
         (Parse demoRequest))))"
    by blast
  from comment_ids_are_indices
         [of demoParser demoG demoSignatures "[]" demoTree demoX demoWorker demoRequest]
       p n m u
  have i: "map comment_id (fst (createComments demoParser demoG demoSignatures ([], [], demoTree)))
     = [0, 1] \<and>
     map comment_id (cd_comments (snd (onMessageFromWindow demoX demoWorker (Parse demoRequest))))
     = [0, 1]"
    by simp
  from s t i h l p a show ?thesis by (intro conjI) blast+
qed








end
